theory Spec2Isabelle
  imports Main "HOL-Library.Sublist"
begin

text \<open>
  The package \<open>sqlbuilder\<close> (\<open>pkg/sqlbuilder/builder.go\<close>) builds SQL select statements
  from expressions and clauses. This theory embeds its expressions, its clauses and the
  method \<open>Statement.Build\<close>, and proves how \<open>Build\<close> orders, merges and renders the
  clauses of a statement.
\<close>

section \<open>Strings: the Go library functions the builder calls\<close>

text \<open>
  A Go string is a sequence of bytes; \<^typ>\<open>string\<close> is a list of 8-bit characters.
  \<open>strings.Join(elems, sep)\<close> concatenates the elements with \<open>sep\<close> between them.
\<close>

fun strings_Join :: "string list \<Rightarrow> string \<Rightarrow> string" where
  "strings_Join [] sep = []"
| "strings_Join [x] sep = x"
| "strings_Join (x # y # ys) sep = x @ sep @ strings_Join (y # ys) sep"

text \<open>
  \<open>strings.TrimSpace\<close> removes the leading and the trailing white space, as
  \<open>unicode.IsSpace\<close> defines it, one UTF-8 encoded rune at a time. \<open>whiteSpace\<close> lists the
  encodings of these runes: the six ASCII ones (tab, line feed, vertical tab, form feed,
  carriage return, space), U+0085, U+00A0, U+1680, U+2000 to U+200A, U+2028, U+2029,
  U+202F, U+205F and U+3000.
\<close>

definition whiteSpace :: "string list" where
  "whiteSpace =
    [[CHR 0x09], [CHR 0x0A], [CHR 0x0B], [CHR 0x0C], [CHR 0x0D], [CHR 0x20],
     [CHR 0xC2, CHR 0x85], [CHR 0xC2, CHR 0xA0],
     [CHR 0xE1, CHR 0x9A, CHR 0x80],
     [CHR 0xE2, CHR 0x80, CHR 0x80], [CHR 0xE2, CHR 0x80, CHR 0x81],
     [CHR 0xE2, CHR 0x80, CHR 0x82], [CHR 0xE2, CHR 0x80, CHR 0x83],
     [CHR 0xE2, CHR 0x80, CHR 0x84], [CHR 0xE2, CHR 0x80, CHR 0x85],
     [CHR 0xE2, CHR 0x80, CHR 0x86], [CHR 0xE2, CHR 0x80, CHR 0x87],
     [CHR 0xE2, CHR 0x80, CHR 0x88], [CHR 0xE2, CHR 0x80, CHR 0x89],
     [CHR 0xE2, CHR 0x80, CHR 0x8A],
     [CHR 0xE2, CHR 0x80, CHR 0xA8], [CHR 0xE2, CHR 0x80, CHR 0xA9],
     [CHR 0xE2, CHR 0x80, CHR 0xAF],
     [CHR 0xE2, CHR 0x81, CHR 0x9F],
     [CHR 0xE3, CHR 0x80, CHR 0x80]]"

function TrimLeftSpace :: "string \<Rightarrow> string" where
  "TrimLeftSpace s =
     (case find (\<lambda>e. prefix e s) whiteSpace of
        None \<Rightarrow> s
      | Some e \<Rightarrow> TrimLeftSpace (drop (length e) s))"
  by pat_completeness auto
termination
proof (relation "measure length")
  fix s e
  assume "find (\<lambda>e. prefix e s) whiteSpace = Some e"
  then have "e \<in> set whiteSpace" and "prefix e s"
    by (auto simp: find_Some_iff)
  then have "e \<noteq> []" and "length e \<le> length s"
    by (auto simp: whiteSpace_def prefix_length_le)
  then show "(drop (length e) s, s) \<in> measure length"
    by (cases e) auto
qed simp

function TrimRightSpace :: "string \<Rightarrow> string" where
  "TrimRightSpace s =
     (case find (\<lambda>e. suffix e s) whiteSpace of
        None \<Rightarrow> s
      | Some e \<Rightarrow> TrimRightSpace (take (length s - length e) s))"
  by pat_completeness auto
termination
proof (relation "measure length")
  fix s e
  assume "find (\<lambda>e. suffix e s) whiteSpace = Some e"
  then have "e \<in> set whiteSpace" and "suffix e s"
    by (auto simp: find_Some_iff)
  then have "e \<noteq> []" and "length e \<le> length s"
    by (auto simp: whiteSpace_def suffix_length_le)
  then show "(take (length s - length e) s, s) \<in> measure length"
    by (cases e) auto
qed simp

definition TrimSpace :: "string \<Rightarrow> string" where
  "TrimSpace s = TrimRightSpace (TrimLeftSpace s)"

section \<open>Kinds\<close>

text \<open>
  \<open>StatementKind\<close> and \<open>ClauseKind\<close> are enumerations numbered by \<open>iota\<close>. The order of
  the clause kinds is the order in which clauses must show up in a statement: the number
  of a kind is the index of its slot in the builder.
\<close>

datatype StatementKind = unknownStatement | SelectStatement

datatype ClauseKind =
    unknownClause
  | FromClause
  | JoinClause
  | LeftJoinClause
  | WhereClause
  | GroupByClause
  | OrderByClause

fun ClauseKind_uint :: "ClauseKind \<Rightarrow> nat" where
  "ClauseKind_uint unknownClause = 0"
| "ClauseKind_uint FromClause = 1"
| "ClauseKind_uint JoinClause = 2"
| "ClauseKind_uint LeftJoinClause = 3"
| "ClauseKind_uint WhereClause = 4"
| "ClauseKind_uint GroupByClause = 5"
| "ClauseKind_uint OrderByClause = 6"

text \<open>
  Modelled from the spec: the method \<open>StatementKind.String\<close> is generated by
  \<open>stringer -linecomment\<close> into a file that is not among the sources. The name of a
  constant is its line comment in \<open>builder.go\<close> (the spec's statement keyword \<open>select\<close>); a
  constant without a line comment keeps its identifier.
\<close>

fun StatementKind_String :: "StatementKind \<Rightarrow> string" where
  "StatementKind_String unknownStatement = ''_unknownStatement''"
| "StatementKind_String SelectStatement = ''select''"

text \<open>
  Modelled from the spec: the method \<open>ClauseKind.String\<close> is generated in the same way and
  is not among the sources either. The names are the line comments of the constants, the
  spec's clause keywords \<open>from\<close>, \<open>join\<close>, \<open>left join\<close>, \<open>where\<close>, \<open>group by\<close> and
  \<open>order by\<close>.
\<close>

fun ClauseKind_String :: "ClauseKind \<Rightarrow> string" where
  "ClauseKind_String unknownClause = ''_unknownClause''"
| "ClauseKind_String FromClause = ''from''"
| "ClauseKind_String JoinClause = ''join''"
| "ClauseKind_String LeftJoinClause = ''left join''"
| "ClauseKind_String WhereClause = ''where''"
| "ClauseKind_String GroupByClause = ''group by''"
| "ClauseKind_String OrderByClause = ''order by''"

text \<open>
  Modelled from the spec: the table \<open>_ClauseKind_index\<close>, whose length is the number of
  slots of the builder, is generated with \<open>ClauseKind.String\<close> and is not among the
  sources. The accumulator is "sized to the total number of known kinds": the table holds
  the offset of each of the seven names and the final offset, eight entries, so that the
  number of every kind is the index of a slot.
\<close>

definition ClauseKind_index_len :: nat where
  "ClauseKind_index_len = 8"

section \<open>Expressions\<close>

text \<open>
  An \<open>Expression\<close> is anything with a method \<open>Build() string\<close>. The package's own
  expressions are closures (\<open>type ExpressionFunc func() string\<close>), and the model keeps
  them as such: an expression is the closure that renders it, and every other type with a
  \<open>Build\<close> method (\<open>MultiExpression\<close>, \<open>SimpleListExpression\<close>, the clauses, \<open>Statement\<close>)
  becomes an expression through the closure of its method. Interface values are not nil,
  with one exception: the right operand of \<open>Predicate\<close>, where the source tests for nil,
  is an \<^typ>\<open>'a option\<close>. The closures of the package's constructors capture no variable
  that changes, and \<open>Build\<close> is a function here; closures with state are the subject of
  the section "Expressions with state".
\<close>

datatype Expression = ExpressionFunc "unit \<Rightarrow> string"

fun Build :: "Expression \<Rightarrow> string" where
  "Build (ExpressionFunc e) = e ()"

definition defaultPlaceholder :: string where
  "defaultPlaceholder = ''?''"

definition defaultExpressionDelimeter :: string where
  "defaultExpressionDelimeter = '', ''"

record SimpleListExpression =
  sl_Delimeter :: string
  sl_Values :: "string list"

definition SimpleListExpression_Build :: "SimpleListExpression \<Rightarrow> string" where
  "SimpleListExpression_Build e = strings_Join (sl_Values e) (sl_Delimeter e)"

record MultiExpression =
  me_Delimeter :: string
  me_Expressions :: "Expression list"

text \<open>The loop of \<open>MultiExpression.Build\<close> appends the rendering of each expression in turn.\<close>

definition MultiExpression_Build :: "MultiExpression \<Rightarrow> string" where
  "MultiExpression_Build e =
     SimpleListExpression_Build
       \<lparr>sl_Delimeter = me_Delimeter e, sl_Values = map Build (me_Expressions e)\<rparr>"

definition MultiExpression_Expression :: "MultiExpression \<Rightarrow> Expression" where
  "MultiExpression_Expression e = ExpressionFunc (\<lambda>_. MultiExpression_Build e)"

definition Ref :: "string \<Rightarrow> Expression" where
  "Ref name = ExpressionFunc (\<lambda>_. name)"

definition Const :: "string \<Rightarrow> Expression" where
  "Const val = ExpressionFunc (\<lambda>_. [CHR 0x27] @ val @ [CHR 0x27])"

definition As :: "Expression \<Rightarrow> string \<Rightarrow> Expression" where
  "As expr alias = ExpressionFunc (\<lambda>_. Build expr @ '' as '' @ Build (Const alias))"

definition RefAs :: "string \<Rightarrow> string \<Rightarrow> Expression" where
  "RefAs name alias = As (Ref name) alias"

definition Wrap :: "Expression \<Rightarrow> Expression" where
  "Wrap expr = ExpressionFunc (\<lambda>_. ''('' @ Build expr @ '')'')"

definition Func :: "string \<Rightarrow> Expression list \<Rightarrow> Expression" where
  "Func fn args =
     (let call = Ref fn;
          me = \<lparr>me_Delimeter = defaultExpressionDelimeter, me_Expressions = args\<rparr>
      in ExpressionFunc (\<lambda>_. Build call @ Build (Wrap (MultiExpression_Expression me))))"

definition Columns :: "Expression list \<Rightarrow> Expression" where
  "Columns cols =
     MultiExpression_Expression
       \<lparr>me_Delimeter = defaultExpressionDelimeter, me_Expressions = cols\<rparr>"

definition Predicate :: "string \<Rightarrow> Expression \<Rightarrow> Expression option \<Rightarrow> Expression" where
  "Predicate op left right =
     ExpressionFunc (\<lambda>_.
       let s = Build left @ '' '' @ op
       in case right of
            Some r \<Rightarrow> s @ '' '' @ Build r
          | None \<Rightarrow> s)"

definition Equals :: "Expression \<Rightarrow> Expression \<Rightarrow> Expression" where
  "Equals left right = Predicate ''='' left (Some right)"

definition Greater :: "Expression \<Rightarrow> Expression \<Rightarrow> Expression" where
  "Greater left right = Predicate ''>'' left (Some right)"

definition Less :: "Expression \<Rightarrow> Expression \<Rightarrow> Expression" where
  "Less left right = Predicate ''<'' left (Some right)"

definition GreaterOrEqual :: "Expression \<Rightarrow> Expression \<Rightarrow> Expression" where
  "GreaterOrEqual left right = Predicate ''>='' left (Some right)"

definition LessOrEqual :: "Expression \<Rightarrow> Expression \<Rightarrow> Expression" where
  "LessOrEqual left right = Predicate ''<='' left (Some right)"

definition In :: "Expression \<Rightarrow> Expression \<Rightarrow> Expression" where
  "In left right = Predicate ''in'' left (Some (Wrap right))"

definition Like :: "Expression \<Rightarrow> Expression \<Rightarrow> Expression" where
  "Like left right = Predicate ''like'' left (Some right)"

definition NotLike :: "Expression \<Rightarrow> Expression \<Rightarrow> Expression" where
  "NotLike left right = Predicate ''not like'' left (Some right)"

definition Between :: "Expression \<Rightarrow> Expression \<Rightarrow> Expression" where
  "Between left right = Predicate ''between'' left (Some right)"

definition IsNull :: "Expression \<Rightarrow> Expression" where
  "IsNull expr = Predicate ''is null'' expr None"

definition IsNotNull :: "Expression \<Rightarrow> Expression" where
  "IsNotNull expr = Predicate ''is not null'' expr None"

definition Placeholder :: Expression where
  "Placeholder = ExpressionFunc (\<lambda>_. defaultPlaceholder)"

section \<open>Clauses\<close>

text \<open>
  A \<open>Clause\<close> is an expression with a kind and a delimiter. The package has six clause
  types, one struct each; \<open>fmt.Sprintf("%s %s on %s", a, b, c)\<close> is written out as the
  concatenation it computes.
\<close>

datatype Clause =
    fromClause "Expression list"
  | joinClause Expression "Expression list"
  | leftJoinClause Expression "Expression list"
  | whereClause MultiExpression
  | groupByClause "string list"
  | orderByClause "string list"

fun Clause_Kind :: "Clause \<Rightarrow> ClauseKind" where
  "Clause_Kind (fromClause tables) = FromClause"
| "Clause_Kind (joinClause table predicates) = JoinClause"
| "Clause_Kind (leftJoinClause table predicates) = LeftJoinClause"
| "Clause_Kind (whereClause predicates) = WhereClause"
| "Clause_Kind (groupByClause columns) = GroupByClause"
| "Clause_Kind (orderByClause columns) = OrderByClause"

fun Clause_Delimeter :: "Clause \<Rightarrow> string" where
  "Clause_Delimeter (fromClause tables) = '', ''"
| "Clause_Delimeter (joinClause table predicates) = '' ''"
| "Clause_Delimeter (leftJoinClause table predicates) = '' ''"
| "Clause_Delimeter (whereClause predicates) = '' and ''"
| "Clause_Delimeter (groupByClause columns) = '', ''"
| "Clause_Delimeter (orderByClause columns) = '', ''"

fun Clause_Build :: "Clause \<Rightarrow> string" where
  "Clause_Build (fromClause tables) = strings_Join (map Build tables) defaultExpressionDelimeter"
| "Clause_Build (joinClause table predicates) =
     ClauseKind_String (Clause_Kind (joinClause table predicates)) @ '' '' @ Build table
       @ '' on '' @ strings_Join (map Build predicates) '' and ''"
| "Clause_Build (leftJoinClause table predicates) =
     ClauseKind_String (Clause_Kind (leftJoinClause table predicates)) @ '' '' @ Build table
       @ '' on '' @ strings_Join (map Build predicates) '' and ''"
| "Clause_Build (whereClause predicates) =
     Build (Wrap (MultiExpression_Expression predicates))"
| "Clause_Build (groupByClause columns) =
     (let cols = strings_Join columns defaultExpressionDelimeter
      in ClauseKind_String (Clause_Kind (groupByClause columns)) @ '' '' @ cols)"
| "Clause_Build (orderByClause columns) =
     (let cols = strings_Join columns defaultExpressionDelimeter
      in ClauseKind_String (Clause_Kind (orderByClause columns)) @ '' '' @ cols)"

definition Clause_Expression :: "Clause \<Rightarrow> Expression" where
  "Clause_Expression c = ExpressionFunc (\<lambda>_. Clause_Build c)"

definition OrderByC :: "string list \<Rightarrow> Clause" where
  "OrderByC cols = orderByClause cols"

definition Window :: "string \<Rightarrow> Clause \<Rightarrow> Expression" where
  "Window fn clause = ExpressionFunc (\<lambda>_. fn @ '' over ('' @ Clause_Build clause @ '')'')"

section \<open>Statements\<close>

record Statement =
  Kind :: StatementKind
  Expressions :: "Expression list"
  Clauses :: "Clause list"

record clauseBuilder =
  kind :: ClauseKind
  me :: MultiExpression

text \<open>
  \<open>Statement.Build\<close> works on four local variables: the receiver \<open>s\<close> (here \<open>recv\<close>), the
  string builder, the slice \<open>clauses\<close> with one slot per clause kind (a slot is nil until
  a clause of its kind arrives) and the map \<open>onceClauses\<close> from the kinds whose keyword
  the statement writes to their \<open>sync.Once\<close> (here the flag that says whether the
  \<open>Once\<close> has run). Each statement of the body is a function on these locals, each loop a
  \<open>fold\<close> of its body over the slice it ranges over.
\<close>

record Build_locals =
  recv :: Statement
  builder :: string
  clauses :: "clauseBuilder option list"
  onceClauses :: "ClauseKind \<Rightarrow> bool option"

definition Build_init :: "Statement \<Rightarrow> Build_locals" where
  "Build_init s =
     \<lparr>recv = s,
      builder = [],
      clauses = replicate ClauseKind_index_len None,
      onceClauses =
        (case Kind s of
           SelectStatement \<Rightarrow> [WhereClause \<mapsto> False, FromClause \<mapsto> False]
         | _ \<Rightarrow> Map.empty)\<rparr>"

definition WriteString :: "string \<Rightarrow> Build_locals \<Rightarrow> Build_locals" where
  "WriteString t l = l\<lparr>builder := builder l @ t\<rparr>"

text \<open>The first loop: \<open>for _, expr := range s.Expressions\<close>.\<close>

definition write_expression :: "Expression \<Rightarrow> Build_locals \<Rightarrow> Build_locals" where
  "write_expression expr l = WriteString (Build expr @ '' '') l"

text \<open>
  The second loop: \<open>for _, clause := range s.Clauses\<close>. The slot of the clause's kind gets
  a new \<open>clauseBuilder\<close>, with the delimiter of this clause, when it is nil; then the
  clause is appended to the expressions of the slot's builder. The number of a kind is
  below the length of the slice (lemma \<open>ClauseKind_uint_in_range\<close>), so \<open>clauses[kind]\<close>
  is always in range.
\<close>

definition group_clause :: "Clause \<Rightarrow> Build_locals \<Rightarrow> Build_locals" where
  "group_clause clause l =
     (let kind = Clause_Kind clause;
          i = ClauseKind_uint kind;
          cb = (case clauses l ! i of
                  None \<Rightarrow>
                    \<lparr>kind = kind,
                     me = \<lparr>me_Delimeter = Clause_Delimeter clause, me_Expressions = []\<rparr>\<rparr>
                | Some cb \<Rightarrow> cb);
          cb' = cb\<lparr>me := (me cb)\<lparr>me_Expressions :=
                  me_Expressions (me cb) @ [Clause_Expression clause]\<rparr>\<rparr>
      in l\<lparr>clauses := (clauses l)[i := Some cb']\<rparr>)"

text \<open>
  The third loop: \<open>for _, group := range clauses\<close>. A nil slot is skipped. For a kind that
  has a \<open>sync.Once\<close>, \<open>once.Do\<close> writes the keyword unless the \<open>Once\<close> has run already;
  then the group is written.
\<close>

definition Once_Do :: "ClauseKind \<Rightarrow> (Build_locals \<Rightarrow> Build_locals) \<Rightarrow> Build_locals \<Rightarrow> Build_locals" where
  "Once_Do k f l =
     (case onceClauses l k of
        None \<Rightarrow> l
      | Some fired \<Rightarrow>
          if fired then l
          else (let l' = f l in l'\<lparr>onceClauses := (onceClauses l')(k \<mapsto> True)\<rparr>))"

definition write_group :: "clauseBuilder option \<Rightarrow> Build_locals \<Rightarrow> Build_locals" where
  "write_group grp l =
     (case grp of
        None \<Rightarrow> l
      | Some g \<Rightarrow>
          (let k = kind g;
               l' = Once_Do k (WriteString (ClauseKind_String k @ '' '')) l
           in WriteString (MultiExpression_Build (me g) @ '' '') l'))"

definition Statement_Build_locals :: "Statement \<Rightarrow> Build_locals" where
  "Statement_Build_locals s =
     (let l0 = Build_init s;
          l1 = WriteString (StatementKind_String (Kind (recv l0)) @ '' '') l0;
          l2 = fold write_expression (Expressions (recv l1)) l1;
          l3 = fold group_clause (Clauses (recv l2)) l2
      in fold write_group (clauses l3) l3)"

definition Statement_Build :: "Statement \<Rightarrow> string" where
  "Statement_Build s = TrimSpace (builder (Statement_Build_locals s))"

definition Statement_Expression :: "Statement \<Rightarrow> Expression" where
  "Statement_Expression s = ExpressionFunc (\<lambda>_. Statement_Build s)"

section \<open>Constructing statements\<close>

text \<open>
  A \<open>StatementOption\<close> is a \<open>func(*Statement)\<close>: it changes the statement it is given.
  \<open>Select\<close> applies its options in argument order to a new select statement.
\<close>

type_synonym StatementOption = "Statement \<Rightarrow> Statement"

definition Select :: "Expression \<Rightarrow> StatementOption list \<Rightarrow> Statement" where
  "Select columns opts =
     fold (\<lambda>opt st. opt st) opts
       \<lparr>Kind = SelectStatement, Expressions = [columns], Clauses = []\<rparr>"

definition From :: "Expression list \<Rightarrow> StatementOption" where
  "From tables st = st\<lparr>Clauses := Clauses st @ [fromClause tables]\<rparr>"

definition FromSubselect :: "Statement \<Rightarrow> string \<Rightarrow> StatementOption" where
  "FromSubselect sub as =
     (let expr = Wrap (Statement_Expression sub);
          expr = (if as \<noteq> [] then As expr as else expr)
      in From [expr])"

definition Join :: "Expression \<Rightarrow> Expression list \<Rightarrow> StatementOption" where
  "Join table predicates st =
     st\<lparr>Clauses := Clauses st @ [joinClause table predicates]\<rparr>"

definition LeftJoin :: "Expression \<Rightarrow> Expression list \<Rightarrow> StatementOption" where
  "LeftJoin table predicates st =
     st\<lparr>Clauses := Clauses st @ [leftJoinClause table predicates]\<rparr>"

definition Where :: "Expression list \<Rightarrow> StatementOption" where
  "Where predicates st =
     (let me = \<lparr>me_Delimeter = '' and '', me_Expressions = predicates\<rparr>
      in st\<lparr>Clauses := Clauses st @ [whereClause me]\<rparr>)"

definition OrderBy :: "string list \<Rightarrow> StatementOption" where
  "OrderBy cols st = st\<lparr>Clauses := Clauses st @ [orderByClause cols]\<rparr>"

definition GroupBy :: "string list \<Rightarrow> StatementOption" where
  "GroupBy cols st = st\<lparr>Clauses := Clauses st @ [groupByClause cols]\<rparr>"

section \<open>Expressions with state\<close>

text \<open>
  An \<open>ExpressionFunc\<close> is any \<open>func() string\<close>: the closure may read and write
  variables outside the statement, and then two calls of its \<open>Build\<close> need not return the
  same string. To compare two calls of \<open>Statement.Build\<close>, this section gives \<open>Build\<close>
  methods a state \<open>'w\<close>, the variables the closures of a statement capture: a \<open>Build\<close>
  method takes the state and returns its string and the new state. A clause is its three
  methods (\<open>Kind\<close> and \<open>Delimeter\<close> return constants in every clause type of the
  package), a statement its kind, the \<open>Build\<close> methods of its expressions and its
  clauses.
\<close>

type_synonym 'w StatefulBuild = "'w \<Rightarrow> string \<times> 'w"

record 'w StatefulClause =
  sc_Kind :: ClauseKind
  sc_Delimeter :: string
  sc_Build :: "'w StatefulBuild"

record 'w StatefulStatement =
  ss_Kind :: StatementKind
  ss_Expressions :: "'w StatefulBuild list"
  ss_Clauses :: "'w StatefulClause list"

text \<open>
  \<open>MultiExpression.Build\<close> calls \<open>Build\<close> on its expressions from first to last, each
  call in the state the call before it left.
\<close>

record 'w StatefulMultiExpression =
  sme_Delimeter :: string
  sme_Expressions :: "'w StatefulBuild list"

fun build_values :: "'w StatefulBuild list \<Rightarrow> 'w \<Rightarrow> string list \<times> 'w" where
  "build_values [] w = ([], w)"
| "build_values (expr # exprs) w =
     (case expr w of (v, w1) \<Rightarrow>
        case build_values exprs w1 of (vs, w2) \<Rightarrow> (v # vs, w2))"

definition StatefulMultiExpression_Build :: "'w StatefulMultiExpression \<Rightarrow> 'w StatefulBuild" where
  "StatefulMultiExpression_Build e w =
     (case build_values (sme_Expressions e) w of
        (vs, w') \<Rightarrow>
          (SimpleListExpression_Build \<lparr>sl_Delimeter = sme_Delimeter e, sl_Values = vs\<rparr>, w'))"

text \<open>
  \<open>Statement.Build\<close> as before, statement by statement, with the state among the locals:
  the first loop calls \<open>Build\<close> on the expressions in their order, the second loop calls
  only \<open>Kind\<close> and \<open>Delimeter\<close>, the third loop calls \<open>Build\<close> on the clauses slot by
  slot. The builder, the slots and the \<open>Once\<close> values are new in every call; what a call
  leaves behind is the statement and the state.
\<close>

record 'w stateful_clauseBuilder =
  scb_kind :: ClauseKind
  scb_me :: "'w StatefulMultiExpression"

record 'w Stateful_locals =
  st_recv :: "'w StatefulStatement"
  st_builder :: string
  st_clauses :: "'w stateful_clauseBuilder option list"
  st_onceClauses :: "ClauseKind \<Rightarrow> bool option"
  st_world :: 'w

definition Stateful_init :: "'w StatefulStatement \<Rightarrow> 'w \<Rightarrow> 'w Stateful_locals" where
  "Stateful_init s w =
     \<lparr>st_recv = s,
      st_builder = [],
      st_clauses = replicate ClauseKind_index_len None,
      st_onceClauses =
        (case ss_Kind s of
           SelectStatement \<Rightarrow> [WhereClause \<mapsto> False, FromClause \<mapsto> False]
         | _ \<Rightarrow> Map.empty),
      st_world = w\<rparr>"

definition st_WriteString :: "string \<Rightarrow> 'w Stateful_locals \<Rightarrow> 'w Stateful_locals" where
  "st_WriteString t l = l\<lparr>st_builder := st_builder l @ t\<rparr>"

definition st_write_expression :: "'w StatefulBuild \<Rightarrow> 'w Stateful_locals \<Rightarrow> 'w Stateful_locals" where
  "st_write_expression expr l =
     (case expr (st_world l) of
        (t, w') \<Rightarrow> st_WriteString (t @ '' '') (l\<lparr>st_world := w'\<rparr>))"

definition st_group_clause :: "'w StatefulClause \<Rightarrow> 'w Stateful_locals \<Rightarrow> 'w Stateful_locals" where
  "st_group_clause clause l =
     (let kind = sc_Kind clause;
          i = ClauseKind_uint kind;
          cb = (case st_clauses l ! i of
                  None \<Rightarrow>
                    \<lparr>scb_kind = kind,
                     scb_me = \<lparr>sme_Delimeter = sc_Delimeter clause, sme_Expressions = []\<rparr>\<rparr>
                | Some cb \<Rightarrow> cb);
          cb' = cb\<lparr>scb_me := (scb_me cb)\<lparr>sme_Expressions :=
                  sme_Expressions (scb_me cb) @ [sc_Build clause]\<rparr>\<rparr>
      in l\<lparr>st_clauses := (st_clauses l)[i := Some cb']\<rparr>)"

definition st_Once_Do ::
  "ClauseKind \<Rightarrow> ('w Stateful_locals \<Rightarrow> 'w Stateful_locals) \<Rightarrow> 'w Stateful_locals \<Rightarrow> 'w Stateful_locals" where
  "st_Once_Do k f l =
     (case st_onceClauses l k of
        None \<Rightarrow> l
      | Some fired \<Rightarrow>
          if fired then l
          else (let l' = f l in l'\<lparr>st_onceClauses := (st_onceClauses l')(k \<mapsto> True)\<rparr>))"

definition st_write_group ::
  "'w stateful_clauseBuilder option \<Rightarrow> 'w Stateful_locals \<Rightarrow> 'w Stateful_locals" where
  "st_write_group grp l =
     (case grp of
        None \<Rightarrow> l
      | Some g \<Rightarrow>
          (let k = scb_kind g;
               l' = st_Once_Do k (st_WriteString (ClauseKind_String k @ '' '')) l
           in case StatefulMultiExpression_Build (scb_me g) (st_world l') of
                (t, w') \<Rightarrow> st_WriteString (t @ '' '') (l'\<lparr>st_world := w'\<rparr>)))"

definition Stateful_Build_locals :: "'w StatefulStatement \<Rightarrow> 'w \<Rightarrow> 'w Stateful_locals" where
  "Stateful_Build_locals s w =
     (let l0 = Stateful_init s w;
          l1 = st_WriteString (StatementKind_String (ss_Kind (st_recv l0)) @ '' '') l0;
          l2 = fold st_write_expression (ss_Expressions (st_recv l1)) l1;
          l3 = fold st_group_clause (ss_Clauses (st_recv l2)) l2
      in fold st_write_group (st_clauses l3) l3)"

definition Stateful_Build :: "'w StatefulStatement \<Rightarrow> 'w \<Rightarrow> string \<times> 'w StatefulStatement \<times> 'w" where
  "Stateful_Build s w =
     (let l = Stateful_Build_locals s w
      in (TrimSpace (st_builder l), st_recv l, st_world l))"

definition Build_twice :: "'w StatefulStatement \<Rightarrow> 'w \<Rightarrow> string \<times> string" where
  "Build_twice s w =
     (case Stateful_Build s w of
        (first, s1, w1) \<Rightarrow>
          case Stateful_Build s1 w1 of
            (second, s2, w2) \<Rightarrow> (first, second))"

text \<open>
  The expressions, clauses and statements of the sections above, seen as ones with state:
  their \<open>Build\<close> returns its string and leaves the state alone. Below, \<open>read_only\<close>
  says that a \<open>Build\<close> method never changes the state (it may read it).
\<close>

definition stateless :: "string \<Rightarrow> 'w StatefulBuild" where
  "stateless t w = (t, w)"

definition Clause_stateful :: "Clause \<Rightarrow> 'w StatefulClause" where
  "Clause_stateful c =
     \<lparr>sc_Kind = Clause_Kind c, sc_Delimeter = Clause_Delimeter c,
      sc_Build = stateless (Clause_Build c)\<rparr>"

definition Statement_stateful :: "Statement \<Rightarrow> 'w StatefulStatement" where
  "Statement_stateful s =
     \<lparr>ss_Kind = Kind s,
      ss_Expressions = map (\<lambda>e. stateless (Build e)) (Expressions s),
      ss_Clauses = map Clause_stateful (Clauses s)\<rparr>"

definition read_only :: "'w StatefulBuild \<Rightarrow> bool" where
  "read_only b = (\<forall>w. snd (b w) = w)"

text \<open>
  A closure that counts its calls: \<open>n := 0\<close> and
  \<open>ExpressionFunc(func() string { n++; if n == 1 { return "a" }; return "b" })\<close>, with
  the state \<open>n\<close>; \<open>counting_statement\<close> is \<open>Select\<close> of this expression. The closure
  \<open>reading\<close> returns the same strings and leaves \<open>n\<close> alone.
\<close>

definition counting :: "nat StatefulBuild" where
  "counting n = (if n = 0 then ''a'' else ''b'', Suc n)"

definition counting_statement :: "nat StatefulStatement" where
  "counting_statement =
     \<lparr>ss_Kind = SelectStatement, ss_Expressions = [counting], ss_Clauses = []\<rparr>"

definition reading :: "nat StatefulBuild" where
  "reading n = (if n = 0 then ''a'' else ''b'', n)"

definition reading_statement :: "nat StatefulStatement" where
  "reading_statement =
     \<lparr>ss_Kind = SelectStatement, ss_Expressions = [reading],
      ss_Clauses = [Clause_stateful (fromClause [Ref ''t''])]\<rparr>"

text \<open>
  For the proofs: the slots hold read-only expressions only, and the locals of the
  sections above as locals with state.
\<close>

definition slots_read_only :: "'w stateful_clauseBuilder option list \<Rightarrow> bool" where
  "slots_read_only gs =
     (\<forall>cb. Some cb \<in> set gs \<longrightarrow> (\<forall>e \<in> set (sme_Expressions (scb_me cb)). read_only e))"

definition stateful_clauseBuilder_of :: "clauseBuilder \<Rightarrow> 'w stateful_clauseBuilder" where
  "stateful_clauseBuilder_of cb =
     \<lparr>scb_kind = kind cb,
      scb_me = \<lparr>sme_Delimeter = me_Delimeter (me cb),
                sme_Expressions = map (\<lambda>e. stateless (Build e)) (me_Expressions (me cb))\<rparr>\<rparr>"

definition Stateful_locals_of :: "Build_locals \<Rightarrow> 'w \<Rightarrow> 'w Stateful_locals" where
  "Stateful_locals_of l w =
     \<lparr>st_recv = Statement_stateful (recv l),
      st_builder = builder l,
      st_clauses = map (map_option stateful_clauseBuilder_of) (clauses l),
      st_onceClauses = onceClauses l,
      st_world = w\<rparr>"

section \<open>The rendering, clause kind by clause kind\<close>

text \<open>
  The statements below are phrased with these notions: the clauses of one kind, in the
  order of the clause list; the keyword the statement writes before a group (\<open>from\<close> and
  \<open>where\<close> of a select statement); the text one kind contributes; and the text before the
  clauses.
\<close>

definition clauses_of_kind :: "ClauseKind \<Rightarrow> Clause list \<Rightarrow> Clause list" where
  "clauses_of_kind k cs = filter (\<lambda>c. Clause_Kind c = k) cs"

definition once_keyword :: "StatementKind \<Rightarrow> ClauseKind \<Rightarrow> string" where
  "once_keyword sk k =
     (if sk = SelectStatement \<and> (k = FromClause \<or> k = WhereClause)
      then ClauseKind_String k @ '' '' else [])"

definition group_text :: "StatementKind \<Rightarrow> ClauseKind \<Rightarrow> Clause list \<Rightarrow> string" where
  "group_text sk k cs =
     (case clauses_of_kind k cs of
        [] \<Rightarrow> []
      | c # g \<Rightarrow>
          once_keyword sk k @ strings_Join (map Clause_Build (c # g)) (Clause_Delimeter c) @ '' '')"

definition head_text :: "Statement \<Rightarrow> string" where
  "head_text s =
     StatementKind_String (Kind s) @ '' ''
       @ concat (map (\<lambda>e. Build e @ '' '') (Expressions s))"

definition kind_order :: "ClauseKind list" where
  "kind_order =
     [FromClause, JoinClause, LeftJoinClause, WhereClause, GroupByClause, OrderByClause]"

text \<open>The slot of a kind after the second loop, and the whole slice.\<close>

definition slot :: "ClauseKind \<Rightarrow> Clause list \<Rightarrow> clauseBuilder option" where
  "slot k cs =
     (case clauses_of_kind k cs of
        [] \<Rightarrow> None
      | c # g \<Rightarrow>
          Some \<lparr>kind = k,
                me = \<lparr>me_Delimeter = Clause_Delimeter c,
                      me_Expressions = map Clause_Expression (c # g)\<rparr>\<rparr>)"

definition slots :: "Clause list \<Rightarrow> clauseBuilder option list" where
  "slots cs =
     [slot unknownClause cs, slot FromClause cs, slot JoinClause cs, slot LeftJoinClause cs,
      slot WhereClause cs, slot GroupByClause cs, slot OrderByClause cs, None]"

section \<open>White space\<close>

declare TrimLeftSpace.simps [simp del] TrimRightSpace.simps [simp del]

lemma TrimLeftSpace_select: "TrimLeftSpace (''select '' @ x) = ''select '' @ x"
  by (subst TrimLeftSpace.simps) (simp add: whiteSpace_def)

lemma TrimRightSpace_space: "TrimRightSpace (x @ '' '') = TrimRightSpace x"
  by (subst TrimRightSpace.simps) (simp add: whiteSpace_def suffix_to_prefix)

lemma TrimRightSpace_paren: "TrimRightSpace (x @ '')'') = x @ '')''"
  by (subst TrimRightSpace.simps) (simp add: whiteSpace_def suffix_to_prefix)

lemma TrimSpace_where_empty:
  "TrimSpace (''select '' @ x @ '' where () '') = ''select '' @ x @ '' where ()''"
proof -
  have "TrimSpace (''select '' @ x @ '' where () '') =
          TrimRightSpace (((''select '' @ x @ '' where ('') @ '')'') @ '' '')"
    unfolding TrimSpace_def TrimLeftSpace_select by simp
  also have "\<dots> = (''select '' @ x @ '' where ('') @ '')''"
    unfolding TrimRightSpace_space TrimRightSpace_paren ..
  finally show ?thesis by simp
qed

section \<open>The second loop: grouping by kind\<close>

lemma ClauseKind_uint_in_range: "ClauseKind_uint k < ClauseKind_index_len"
  by (cases k) (simp_all add: ClauseKind_index_len_def)

lemma Clause_Kind_known: "Clause_Kind c \<noteq> unknownClause"
  by (cases c) simp_all

lemma Clause_Delimeter_by_kind:
  "Clause_Kind x = Clause_Kind y \<Longrightarrow> Clause_Delimeter x = Clause_Delimeter y"
  by (cases x; cases y) simp_all

lemma clauses_of_kind_unknown: "clauses_of_kind unknownClause cs = []"
  by (simp add: clauses_of_kind_def Clause_Kind_known)

lemma slots_Nil: "slots [] = replicate ClauseKind_index_len None"
  by (simp add: slots_def slot_def clauses_of_kind_def ClauseKind_index_len_def numeral_eq_Suc)

lemma slots_nth: "slots cs ! ClauseKind_uint k = slot k cs"
  by (cases k) (simp_all add: slots_def)

lemma slot_snoc_other: "Clause_Kind c \<noteq> k \<Longrightarrow> slot k (cs @ [c]) = slot k cs"
  by (simp add: slot_def clauses_of_kind_def)

lemma slot_snoc_same:
  "slot (Clause_Kind c) (cs @ [c]) =
     Some (let cb = (case slot (Clause_Kind c) cs of
                  None \<Rightarrow>
                    \<lparr>kind = Clause_Kind c,
                     me = \<lparr>me_Delimeter = Clause_Delimeter c, me_Expressions = []\<rparr>\<rparr>
                | Some cb \<Rightarrow> cb)
       in cb\<lparr>me := (me cb)\<lparr>me_Expressions :=
                  me_Expressions (me cb) @ [Clause_Expression c]\<rparr>\<rparr>)"
  by (simp add: slot_def clauses_of_kind_def split: list.splits)

lemma slots_snoc:
  "slots (cs @ [c]) =
     (slots cs)[ClauseKind_uint (Clause_Kind c) := slot (Clause_Kind c) (cs @ [c])]"
proof -
  have other: "\<And>k. k \<noteq> Clause_Kind c \<Longrightarrow> slot k (cs @ [c]) = slot k cs"
    by (rule slot_snoc_other) simp
  show ?thesis
    by (cases "Clause_Kind c") (simp_all add: slots_def other Clause_Kind_known)
qed

lemma group_clause_slots:
  assumes "clauses l = slots cs"
  shows "group_clause c l = l\<lparr>clauses := slots (cs @ [c])\<rparr>"
  unfolding group_clause_def Let_def assms slots_nth slots_snoc [of cs c] slot_snoc_same [of c cs]
  by (simp add: Let_def)

lemma fold_group_clause:
  "clauses l = slots cs0 \<Longrightarrow> fold group_clause cs l = l\<lparr>clauses := slots (cs0 @ cs)\<rparr>"
proof (induction cs arbitrary: l cs0)
  case Nil
  then show ?case by simp
next
  case (Cons c cs)
  have "fold group_clause (c # cs) l = fold group_clause cs (l\<lparr>clauses := slots (cs0 @ [c])\<rparr>)"
    by (simp add: group_clause_slots [OF Cons.prems])
  also have "\<dots> = l\<lparr>clauses := slots (cs0 @ [c]), clauses := slots ((cs0 @ [c]) @ cs)\<rparr>"
    by (rule Cons.IH) simp
  finally show ?case by simp
qed

section \<open>The first and the third loop: writing\<close>

lemma fold_write_expression:
  "fold write_expression es l =
     l\<lparr>builder := builder l @ concat (map (\<lambda>e. Build e @ '' '') es)\<rparr>"
  by (induction es arbitrary: l) (simp_all add: write_expression_def WriteString_def)

lemma write_group_None: "write_group None l = l"
  by (simp add: write_group_def)

lemma write_group_slot:
  "write_group (slot k cs) l =
     (case clauses_of_kind k cs of
        [] \<Rightarrow> l
      | c # g \<Rightarrow>
          l\<lparr>builder := builder l
                @ (if onceClauses l k = Some False then ClauseKind_String k @ '' '' else [])
                @ strings_Join (map Clause_Build (c # g)) (Clause_Delimeter c) @ '' '',
            onceClauses := (if onceClauses l k = Some False
                            then (onceClauses l)(k \<mapsto> True) else onceClauses l)\<rparr>)"
  by (auto simp: write_group_def slot_def Once_Do_def WriteString_def Let_def
        MultiExpression_Build_def SimpleListExpression_Build_def Clause_Expression_def comp_def
      split: list.splits option.splits)

lemma builder_write_group:
  "builder (write_group (slot k cs) l) =
     builder l @
     (case clauses_of_kind k cs of
        [] \<Rightarrow> []
      | c # g \<Rightarrow>
          (if onceClauses l k = Some False then ClauseKind_String k @ '' '' else [])
          @ strings_Join (map Clause_Build (c # g)) (Clause_Delimeter c) @ '' '')"
  by (simp add: write_group_slot split: list.splits)

lemma onceClauses_write_group_other:
  "k' \<noteq> k \<Longrightarrow> onceClauses (write_group (slot k cs) l) k' = onceClauses l k'"
  by (simp add: write_group_slot split: list.splits)

lemma onceClauses_write_group_same:
  "onceClauses (write_group (slot k cs) l) k =
     (case onceClauses l k of
        None \<Rightarrow> None
      | Some fired \<Rightarrow> Some (fired \<or> clauses_of_kind k cs \<noteq> []))"
  by (simp add: write_group_slot split: list.splits option.splits)

lemma recv_write_group: "recv (write_group g l) = recv l"
  by (simp add: write_group_def Once_Do_def WriteString_def Let_def split: option.splits)

lemma clauses_write_group: "clauses (write_group g l) = clauses l"
  by (simp add: write_group_def Once_Do_def WriteString_def Let_def split: option.splits)

lemma recv_fold_write_group: "recv (fold write_group gs l) = recv l"
  by (induction gs arbitrary: l) (simp_all add: recv_write_group)

lemma clauses_fold_write_group: "clauses (fold write_group gs l) = clauses l"
  by (induction gs arbitrary: l) (simp_all add: clauses_write_group)

lemma builder_fold_write_group:
  "builder (fold write_group (slots cs) l) =
     builder l @
     concat (map (\<lambda>k. case clauses_of_kind k cs of
                         [] \<Rightarrow> []
                       | c # g \<Rightarrow>
                           (if onceClauses l k = Some False
                            then ClauseKind_String k @ '' '' else [])
                           @ strings_Join (map Clause_Build (c # g)) (Clause_Delimeter c) @ '' '')
                 kind_order)"
  by (simp add: slots_def kind_order_def write_group_None builder_write_group
        onceClauses_write_group_other clauses_of_kind_unknown)

lemma onceClauses_fold_write_group:
  "onceClauses (fold write_group (slots cs) l) k =
     (case onceClauses l k of
        None \<Rightarrow> None
      | Some fired \<Rightarrow> Some (fired \<or> clauses_of_kind k cs \<noteq> []))"
  by (cases k)
     (simp_all add: slots_def write_group_None onceClauses_write_group_other
        onceClauses_write_group_same clauses_of_kind_unknown split: option.splits)

section \<open>The whole of Build\<close>

lemma once_keyword_init:
  "(if onceClauses (Build_init s) k = Some False then ClauseKind_String k @ '' '' else []) =
     once_keyword (Kind s) k"
  by (cases "Kind s"; cases k) (simp_all add: Build_init_def once_keyword_def)

lemma Statement_Build_locals_fold:
  "Statement_Build_locals s =
     fold write_group (slots (Clauses s))
       \<lparr>recv = s, builder = head_text s, clauses = slots (Clauses s),
        onceClauses = onceClauses (Build_init s)\<rparr>"
proof -
  let ?l1 = "WriteString (StatementKind_String (Kind s) @ '' '') (Build_init s)"
  let ?l2 = "fold write_expression (Expressions s) ?l1"
  have l2: "?l2 = \<lparr>recv = s, builder = head_text s, clauses = slots [],
                   onceClauses = onceClauses (Build_init s)\<rparr>"
    by (simp add: fold_write_expression WriteString_def Build_init_def slots_Nil head_text_def)
  have r0: "Kind (recv (Build_init s)) = Kind s"
    by (simp add: Build_init_def)
  have r1: "Expressions (recv ?l1) = Expressions s"
    by (simp add: Build_init_def WriteString_def)
  have r2: "Clauses (recv ?l2) = Clauses s"
    by (simp add: l2)
  have "fold group_clause (Clauses s) ?l2 = ?l2\<lparr>clauses := slots ([] @ Clauses s)\<rparr>"
    by (rule fold_group_clause) (simp add: l2)
  then have l3: "fold group_clause (Clauses s) ?l2 =
      \<lparr>recv = s, builder = head_text s, clauses = slots (Clauses s),
       onceClauses = onceClauses (Build_init s)\<rparr>"
    by (simp add: l2)
  show ?thesis
    unfolding Statement_Build_locals_def Let_def r0 r1 r2 l3 by simp
qed

lemma builder_Statement_Build_locals:
  "builder (Statement_Build_locals s) =
     head_text s @ concat (map (\<lambda>k. group_text (Kind s) k (Clauses s)) kind_order)"
  by (simp add: Statement_Build_locals_fold builder_fold_write_group once_keyword_init
        group_text_def cong: list.case_cong)

lemma recv_Statement_Build_locals: "recv (Statement_Build_locals s) = s"
  by (simp add: Statement_Build_locals_fold recv_fold_write_group)

lemma clauses_Statement_Build_locals: "clauses (Statement_Build_locals s) = slots (Clauses s)"
  by (simp add: Statement_Build_locals_fold clauses_fold_write_group)

lemma onceClauses_Statement_Build_locals:
  "onceClauses (Statement_Build_locals s) k =
     (case onceClauses (Build_init s) k of
        None \<Rightarrow> None
      | Some fired \<Rightarrow> Some (fired \<or> clauses_of_kind k (Clauses s) \<noteq> []))"
  by (simp add: Statement_Build_locals_fold onceClauses_fold_write_group)

lemma Statement_Build_eq:
  "Statement_Build s =
     TrimSpace (head_text s @ concat (map (\<lambda>k. group_text (Kind s) k (Clauses s)) kind_order))"
  by (simp add: Statement_Build_def builder_Statement_Build_locals)

lemma clauses_of_kind_member: "c \<in> set (clauses_of_kind k cs) \<Longrightarrow> Clause_Kind c = k"
  by (simp add: clauses_of_kind_def)

lemma clauses_of_kind_head: "clauses_of_kind k cs = c # g \<Longrightarrow> Clause_Kind c = k"
  by (rule clauses_of_kind_member [of c k cs]) simp

lemma Clause_Delimeter_from: "Clause_Kind c = FromClause \<Longrightarrow> Clause_Delimeter c = '', ''"
  by (cases c) simp_all

lemma Clause_Delimeter_where: "Clause_Kind c = WhereClause \<Longrightarrow> Clause_Delimeter c = '' and ''"
  by (cases c) simp_all

lemmas option_defs =
  Select_def From_def FromSubselect_def Join_def LeftJoin_def Where_def OrderBy_def
  GroupBy_def

section \<open>Build with state\<close>

subsection \<open>Read-only expressions\<close>

lemma read_only_result:
  assumes "read_only e"
  shows "\<exists>v. e w = (v, w)"
proof -
  from assms have "snd (e w) = w"
    by (simp add: read_only_def)
  then show ?thesis
    by (cases "e w") simp
qed

lemma build_values_read_only:
  "\<forall>e \<in> set es. read_only e \<Longrightarrow> build_values es w = (map (\<lambda>e. fst (e w)) es, w)"
proof (induction es)
  case Nil
  then show ?case by simp
next
  case (Cons e es)
  then obtain v where "e w = (v, w)"
    using read_only_result [of e w] by auto
  with Cons show ?case
    by simp
qed

lemma st_write_expression_read_only:
  assumes "read_only e"
  shows "st_write_expression e l = l\<lparr>st_builder := st_builder l @ fst (e (st_world l)) @ '' ''\<rparr>"
proof -
  obtain v where "e (st_world l) = (v, st_world l)"
    using read_only_result [OF assms] by blast
  then show ?thesis
    by (simp add: st_write_expression_def st_WriteString_def)
qed

lemma fold_st_write_expression_read_only:
  "\<forall>e \<in> set es. read_only e \<Longrightarrow>
     fold st_write_expression es l =
       l\<lparr>st_builder := st_builder l @ concat (map (\<lambda>e. fst (e (st_world l)) @ '' '') es)\<rparr>"
  by (induction es arbitrary: l) (simp_all add: st_write_expression_read_only)

lemma slots_read_only_replicate: "slots_read_only (replicate n None)"
  by (simp add: slots_read_only_def)

lemma slots_read_only_nth:
  assumes "slots_read_only gs" "i < length gs" "gs ! i = Some cb"
  shows "\<forall>e \<in> set (sme_Expressions (scb_me cb)). read_only e"
proof -
  have "Some cb \<in> set gs"
    using assms(2,3) nth_mem [of i gs] by simp
  with assms(1) show ?thesis
    unfolding slots_read_only_def by blast
qed

lemma slots_read_only_update:
  assumes "slots_read_only gs" "\<forall>e \<in> set (sme_Expressions (scb_me cb)). read_only e"
  shows "slots_read_only (gs[i := Some cb])"
  unfolding slots_read_only_def
proof (intro allI impI)
  fix cb' assume "Some cb' \<in> set (gs[i := Some cb])"
  then have "cb' = cb \<or> Some cb' \<in> set gs"
    using set_update_subset_insert [of gs i "Some cb"] by auto
  then show "\<forall>e \<in> set (sme_Expressions (scb_me cb')). read_only e"
    using assms unfolding slots_read_only_def by blast
qed

lemma st_group_clause_frame:
  "st_recv (st_group_clause c l) = st_recv l"
  "st_builder (st_group_clause c l) = st_builder l"
  "st_onceClauses (st_group_clause c l) = st_onceClauses l"
  "st_world (st_group_clause c l) = st_world l"
  "length (st_clauses (st_group_clause c l)) = length (st_clauses l)"
  by (simp_all add: st_group_clause_def Let_def)

lemma st_group_clause_read_only:
  assumes "slots_read_only (st_clauses l)" "read_only (sc_Build c)"
    "ClauseKind_uint (sc_Kind c) < length (st_clauses l)"
  shows "slots_read_only (st_clauses (st_group_clause c l))"
proof -
  let ?i = "ClauseKind_uint (sc_Kind c)"
  let ?cb = "case st_clauses l ! ?i of
               None \<Rightarrow>
                 \<lparr>scb_kind = sc_Kind c,
                  scb_me = \<lparr>sme_Delimeter = sc_Delimeter c, sme_Expressions = []\<rparr>\<rparr>
             | Some cb \<Rightarrow> cb"
  have old: "\<forall>e \<in> set (sme_Expressions (scb_me ?cb)). read_only e"
  proof (cases "st_clauses l ! ?i")
    case None
    then show ?thesis by simp
  next
    case (Some cb)
    with slots_read_only_nth [OF assms(1) assms(3) Some] show ?thesis by simp
  qed
  let ?cb' = "?cb\<lparr>scb_me := (scb_me ?cb)\<lparr>sme_Expressions :=
                  sme_Expressions (scb_me ?cb) @ [sc_Build c]\<rparr>\<rparr>"
  have new: "\<forall>e \<in> set (sme_Expressions (scb_me ?cb')). read_only e"
    using old assms(2) by simp
  have "st_clauses (st_group_clause c l) = (st_clauses l)[?i := Some ?cb']"
    by (simp add: st_group_clause_def Let_def)
  with slots_read_only_update [OF assms(1) new, of ?i] show ?thesis
    by simp
qed

lemma fold_st_group_clause_read_only:
  assumes "slots_read_only (st_clauses l)" "length (st_clauses l) = ClauseKind_index_len"
    "\<forall>c \<in> set cs. read_only (sc_Build c)"
  shows "slots_read_only (st_clauses (fold st_group_clause cs l))
    \<and> st_world (fold st_group_clause cs l) = st_world l
    \<and> st_recv (fold st_group_clause cs l) = st_recv l"
  using assms
proof (induction cs arbitrary: l)
  case Nil
  then show ?case by simp
next
  case (Cons c cs)
  have range: "ClauseKind_uint (sc_Kind c) < length (st_clauses l)"
    by (simp add: Cons.prems(2) ClauseKind_uint_in_range)
  have "slots_read_only (st_clauses (st_group_clause c l))"
    using Cons.prems(1,3) range by (simp add: st_group_clause_read_only)
  moreover have "length (st_clauses (st_group_clause c l)) = ClauseKind_index_len"
    by (simp add: st_group_clause_frame Cons.prems(2))
  moreover have "\<forall>c \<in> set cs. read_only (sc_Build c)"
    using Cons.prems(3) by simp
  ultimately have "slots_read_only (st_clauses (fold st_group_clause cs (st_group_clause c l)))
    \<and> st_world (fold st_group_clause cs (st_group_clause c l)) = st_world (st_group_clause c l)
    \<and> st_recv (fold st_group_clause cs (st_group_clause c l)) = st_recv (st_group_clause c l)"
    by (rule Cons.IH)
  then show ?case
    by (simp add: st_group_clause_frame)
qed

lemma st_write_group_frame:
  "st_recv (st_write_group g l) = st_recv l"
  "st_clauses (st_write_group g l) = st_clauses l"
  by (simp_all add: st_write_group_def st_Once_Do_def st_WriteString_def Let_def
      split: option.splits prod.splits)

lemma StatefulMultiExpression_Build_read_only:
  "\<forall>e \<in> set (sme_Expressions m). read_only e \<Longrightarrow>
     snd (StatefulMultiExpression_Build m w) = w"
  by (simp add: StatefulMultiExpression_Build_def build_values_read_only)

lemma st_write_group_world:
  assumes "case g of None \<Rightarrow> True
           | Some cb \<Rightarrow> \<forall>e \<in> set (sme_Expressions (scb_me cb)). read_only e"
  shows "st_world (st_write_group g l) = st_world l"
proof (cases g)
  case None
  then show ?thesis by (simp add: st_write_group_def)
next
  case (Some cb)
  let ?l' = "st_Once_Do (scb_kind cb) (st_WriteString (ClauseKind_String (scb_kind cb) @ '' '')) l"
  have w: "st_world ?l' = st_world l"
    by (simp add: st_Once_Do_def st_WriteString_def Let_def split: option.splits)
  have "snd (StatefulMultiExpression_Build (scb_me cb) (st_world ?l')) = st_world ?l'"
    using assms Some by (simp add: StatefulMultiExpression_Build_read_only)
  then obtain t where "StatefulMultiExpression_Build (scb_me cb) (st_world ?l') = (t, st_world ?l')"
    by (cases "StatefulMultiExpression_Build (scb_me cb) (st_world ?l')") simp
  then show ?thesis
    by (simp add: st_write_group_def Some Let_def st_WriteString_def w)
qed

lemma fold_st_write_group_read_only:
  "slots_read_only gs \<Longrightarrow>
     st_world (fold st_write_group gs l) = st_world l
     \<and> st_recv (fold st_write_group gs l) = st_recv l"
proof (induction gs arbitrary: l)
  case Nil
  then show ?case by simp
next
  case (Cons g gs)
  have g: "case g of None \<Rightarrow> True
           | Some cb \<Rightarrow> \<forall>e \<in> set (sme_Expressions (scb_me cb)). read_only e"
    using Cons.prems by (cases g) (simp_all add: slots_read_only_def)
  have "slots_read_only gs"
    using Cons.prems by (simp add: slots_read_only_def)
  from Cons.IH [OF this, of "st_write_group g l"] show ?case
    by (simp add: st_write_group_world [OF g] st_write_group_frame)
qed

lemma Stateful_Build_locals_read_only:
  assumes "\<forall>e \<in> set (ss_Expressions s). read_only e"
    "\<forall>c \<in> set (ss_Clauses s). read_only (sc_Build c)"
  shows "st_world (Stateful_Build_locals s w) = w \<and> st_recv (Stateful_Build_locals s w) = s"
proof -
  let ?l1 = "st_WriteString (StatementKind_String (ss_Kind s) @ '' '') (Stateful_init s w)"
  let ?l2 = "fold st_write_expression (ss_Expressions s) ?l1"
  let ?l3 = "fold st_group_clause (ss_Clauses s) ?l2"
  have l2: "st_world ?l2 = w" "st_recv ?l2 = s"
    "st_clauses ?l2 = replicate ClauseKind_index_len None"
    by (simp_all add: fold_st_write_expression_read_only [OF assms(1)] st_WriteString_def
        Stateful_init_def)
  have l3: "slots_read_only (st_clauses ?l3) \<and> st_world ?l3 = st_world ?l2
      \<and> st_recv ?l3 = st_recv ?l2"
    by (rule fold_st_group_clause_read_only)
       (simp_all add: l2 slots_read_only_replicate assms(2))
  have run: "Stateful_Build_locals s w = fold st_write_group (st_clauses ?l3) ?l3"
    by (simp add: Stateful_Build_locals_def Let_def Stateful_init_def st_WriteString_def
        fold_st_write_expression_read_only [OF assms(1)])
  from l3 fold_st_write_group_read_only [of "st_clauses ?l3" ?l3] show ?thesis
    unfolding run by (simp add: l2)
qed

subsection \<open>Statements of stateless expressions\<close>

lemma build_values_stateless:
  "build_values (map (\<lambda>e. stateless (Build e)) es) w = (map Build es, w)"
  by (induction es) (simp_all add: stateless_def)

lemma st_WriteString_of:
  "st_WriteString t (Stateful_locals_of l w) = Stateful_locals_of (WriteString t l) w"
  by (simp add: st_WriteString_def WriteString_def Stateful_locals_of_def)

lemma st_write_expression_of:
  "st_write_expression (stateless (Build e)) (Stateful_locals_of l w) =
     Stateful_locals_of (write_expression e l) w"
  by (simp add: st_write_expression_def write_expression_def stateless_def
      st_WriteString_def WriteString_def Stateful_locals_of_def)

lemma fold_st_write_expression_of:
  "fold st_write_expression (map (\<lambda>e. stateless (Build e)) es) (Stateful_locals_of l w) =
     Stateful_locals_of (fold write_expression es l) w"
  by (induction es arbitrary: l) (simp_all add: st_write_expression_of)

lemma length_clauses_group_clause: "length (clauses (group_clause c l)) = length (clauses l)"
  by (simp add: group_clause_def Let_def)

lemma length_clauses_fold_group_clause:
  "length (clauses (fold group_clause cs l)) = length (clauses l)"
  by (induction cs arbitrary: l) (simp_all add: length_clauses_group_clause)

lemma st_group_clause_of:
  assumes "ClauseKind_uint (Clause_Kind c) < length (clauses l)"
  shows "st_group_clause (Clause_stateful c) (Stateful_locals_of l w) =
     Stateful_locals_of (group_clause c l) w"
proof (cases "clauses l ! ClauseKind_uint (Clause_Kind c)")
  case None
  with assms show ?thesis
    by (simp add: st_group_clause_def group_clause_def Let_def Stateful_locals_of_def
        Clause_stateful_def stateful_clauseBuilder_of_def Clause_Expression_def map_update)
next
  case (Some cb)
  with assms show ?thesis
    by (simp add: st_group_clause_def group_clause_def Let_def Stateful_locals_of_def
        Clause_stateful_def stateful_clauseBuilder_of_def Clause_Expression_def map_update)
qed

lemma fold_st_group_clause_of:
  "length (clauses l) = ClauseKind_index_len \<Longrightarrow>
   fold st_group_clause (map Clause_stateful cs) (Stateful_locals_of l w) =
     Stateful_locals_of (fold group_clause cs l) w"
proof (induction cs arbitrary: l)
  case Nil
  then show ?case by simp
next
  case (Cons c cs)
  have "ClauseKind_uint (Clause_Kind c) < length (clauses l)"
    by (simp add: Cons.prems ClauseKind_uint_in_range)
  then have "st_group_clause (Clause_stateful c) (Stateful_locals_of l w) =
     Stateful_locals_of (group_clause c l) w"
    by (rule st_group_clause_of)
  moreover have "length (clauses (group_clause c l)) = ClauseKind_index_len"
    by (simp add: length_clauses_group_clause Cons.prems)
  ultimately show ?case
    by (simp add: Cons.IH)
qed

lemma st_write_group_of:
  "st_write_group (map_option stateful_clauseBuilder_of g) (Stateful_locals_of l w) =
     Stateful_locals_of (write_group g l) w"
proof (cases g)
  case None
  then show ?thesis by (simp add: st_write_group_def write_group_def)
next
  case (Some cb)
  have once: "st_Once_Do k (st_WriteString t) (Stateful_locals_of l w) =
      Stateful_locals_of (Once_Do k (WriteString t) l) w" for k t
    by (simp add: st_Once_Do_def Once_Do_def st_WriteString_def WriteString_def
        Stateful_locals_of_def Let_def split: option.splits)
  have me: "StatefulMultiExpression_Build (scb_me (stateful_clauseBuilder_of cb)) v =
      (MultiExpression_Build (me cb), v)" for v
    by (simp add: StatefulMultiExpression_Build_def MultiExpression_Build_def
        stateful_clauseBuilder_of_def build_values_stateless)
  have k: "scb_kind (stateful_clauseBuilder_of cb) = kind cb"
    by (simp add: stateful_clauseBuilder_of_def)
  show ?thesis
    unfolding Some option.map st_write_group_def write_group_def option.case Let_def k once me
    by (simp add: st_WriteString_def WriteString_def Stateful_locals_of_def)
qed

lemma fold_st_write_group_of:
  "fold st_write_group (map (map_option stateful_clauseBuilder_of) gs) (Stateful_locals_of l w) =
     Stateful_locals_of (fold write_group gs l) w"
  by (induction gs arbitrary: l) (simp_all add: st_write_group_of)

lemma Stateful_Build_locals_of:
  "Stateful_Build_locals (Statement_stateful s) w =
     Stateful_locals_of (Statement_Build_locals s) w"
proof -
  let ?l0 = "Build_init s"
  let ?l1 = "WriteString (StatementKind_String (Kind (recv ?l0)) @ '' '') ?l0"
  let ?l2 = "fold write_expression (Expressions (recv ?l1)) ?l1"
  let ?l3 = "fold group_clause (Clauses (recv ?l2)) ?l2"
  let ?L0 = "Stateful_init (Statement_stateful s) w"
  let ?L1 = "st_WriteString (StatementKind_String (ss_Kind (st_recv ?L0)) @ '' '') ?L0"
  let ?L2 = "fold st_write_expression (ss_Expressions (st_recv ?L1)) ?L1"
  let ?L3 = "fold st_group_clause (ss_Clauses (st_recv ?L2)) ?L2"
  have of: "st_recv (Stateful_locals_of l w) = Statement_stateful (recv l)"
    "st_clauses (Stateful_locals_of l w) = map (map_option stateful_clauseBuilder_of) (clauses l)"
    for l :: Build_locals
    by (simp_all add: Stateful_locals_of_def)
  have sel: "ss_Kind (Statement_stateful x :: 'a StatefulStatement) = Kind x"
    "ss_Expressions (Statement_stateful x :: 'a StatefulStatement)
       = map (\<lambda>e. stateless (Build e)) (Expressions x)"
    "ss_Clauses (Statement_stateful x :: 'a StatefulStatement) = map Clause_stateful (Clauses x)"
    for x
    by (simp_all add: Statement_stateful_def)
  have len: "length (clauses ?l2) = ClauseKind_index_len"
    by (simp add: fold_write_expression WriteString_def Build_init_def)
  have e0: "?L0 = Stateful_locals_of ?l0 w"
    by (simp add: Stateful_init_def Build_init_def Stateful_locals_of_def Statement_stateful_def)
  have e1: "?L1 = Stateful_locals_of ?l1 w"
    unfolding e0 of sel by (rule st_WriteString_of)
  have e2: "?L2 = Stateful_locals_of ?l2 w"
    unfolding e1 of sel by (rule fold_st_write_expression_of)
  have e3: "?L3 = Stateful_locals_of ?l3 w"
    unfolding e2 of sel by (rule fold_st_group_clause_of) (rule len)
  have e4: "fold st_write_group (st_clauses ?L3) ?L3 =
      Stateful_locals_of (fold write_group (clauses ?l3) ?l3) w"
    unfolding e3 of by (rule fold_st_write_group_of)
  show ?thesis
    unfolding Stateful_Build_locals_def Statement_Build_locals_def Let_def by (rule e4)
qed

section \<open>Clause order\<close>

text \<open>
  Claim C1. Whatever the order in which the configuration functions appended the clauses,
  \<open>Build\<close> renders the clause groups in the ascending order of their kinds: from, join,
  left join, where, group by, order by. The rendering is the text before the clauses
  followed by the text of each kind in this order, the numbers of the kinds ascend along
  this order, and a clause list with the same clauses of every kind, appended in another
  order, builds to the same string.
\<close>

theorem Build_groups_in_kind_order:
  "Statement_Build s =
     TrimSpace (head_text s @
       concat (map (\<lambda>k. group_text (Kind s) k (Clauses s))
         [FromClause, JoinClause, LeftJoinClause, WhereClause, GroupByClause, OrderByClause]))
   \<and> map ClauseKind_uint
         [FromClause, JoinClause, LeftJoinClause, WhereClause, GroupByClause, OrderByClause]
       = [1, 2, 3, 4, 5, 6]
   \<and> ((\<forall>k. clauses_of_kind k cs' = clauses_of_kind k (Clauses s)) \<longrightarrow>
         Statement_Build (s\<lparr>Clauses := cs'\<rparr>) = Statement_Build s)"
proof (intro conjI impI)
  show "Statement_Build s =
     TrimSpace (head_text s @
       concat (map (\<lambda>k. group_text (Kind s) k (Clauses s))
         [FromClause, JoinClause, LeftJoinClause, WhereClause, GroupByClause, OrderByClause]))"
    using Statement_Build_eq [of s] by (simp only: kind_order_def)
  show "map ClauseKind_uint
         [FromClause, JoinClause, LeftJoinClause, WhereClause, GroupByClause, OrderByClause]
       = [1, 2, 3, 4, 5, 6]"
    by simp
  assume same: "\<forall>k. clauses_of_kind k cs' = clauses_of_kind k (Clauses s)"
  have "head_text (s\<lparr>Clauses := cs'\<rparr>) = head_text s"
    by (simp add: head_text_def)
  moreover have "\<And>k. group_text (Kind s) k cs' = group_text (Kind s) k (Clauses s)"
    by (simp add: group_text_def same)
  ultimately show "Statement_Build (s\<lparr>Clauses := cs'\<rparr>) = Statement_Build s"
    by (simp add: Statement_Build_eq)
qed

theorem Build_groups_in_kind_order_witness:
  "Statement_Build
     (Select (Ref ''*'')
        [OrderBy [''z''], Where [Ref ''p''], Join (Ref ''j'') [Ref ''q''], From [Ref ''t'']])
   = ''select * from t join j on q where (p) order by z''
   \<and> Statement_Build
     (Select (Ref ''*'')
        [From [Ref ''t''], Join (Ref ''j'') [Ref ''q''], Where [Ref ''p''], OrderBy [''z'']])
   = ''select * from t join j on q where (p) order by z''"
proof -
  let ?s = "Select (Ref ''*'')
     [From [Ref ''t''], Join (Ref ''j'') [Ref ''q''], Where [Ref ''p''], OrderBy [''z'']]"
  let ?cs' = "Clauses (Select (Ref ''*'')
     [OrderBy [''z''], Where [Ref ''p''], Join (Ref ''j'') [Ref ''q''], From [Ref ''t'']])"
  have same: "\<forall>k. clauses_of_kind k ?cs' = clauses_of_kind k (Clauses ?s)"
    by (simp add: option_defs clauses_of_kind_def)
  have upd: "?s\<lparr>Clauses := ?cs'\<rparr> = Select (Ref ''*'')
     [OrderBy [''z''], Where [Ref ''p''], Join (Ref ''j'') [Ref ''q''], From [Ref ''t'']]"
    by (simp add: option_defs)
  have "Statement_Build ?s = ''select * from t join j on q where (p) order by z''"
    by code_simp
  with Build_groups_in_kind_order [of ?s ?cs'] same upd show ?thesis
    by simp
qed

section \<open>Keywords written once\<close>

text \<open>
  Claim C2. For a select statement, however many from clauses and where clauses were
  appended, the keyword \<open>from\<close> (and \<open>where\<close>) is written once, before the joined
  content of the group of that kind: the group is the keyword, the renderings of the
  clauses joined by \<open>", "\<close> (by \<open>" and "\<close>), and a space; the \<open>Once\<close> of the kind has
  run at the end exactly when the kind has a clause. In particular two \<open>From\<close> calls
  render as \<open>from a, b\<close>.
\<close>

theorem from_where_keyword_once:
  assumes "Kind s = SelectStatement"
  shows
  "Statement_Build s =
     TrimSpace (head_text s
       @ (case clauses_of_kind FromClause (Clauses s) of
            [] \<Rightarrow> []
          | c # g \<Rightarrow> ''from '' @ strings_Join (map Clause_Build (c # g)) '', '' @ '' '')
       @ group_text (Kind s) JoinClause (Clauses s)
       @ group_text (Kind s) LeftJoinClause (Clauses s)
       @ (case clauses_of_kind WhereClause (Clauses s) of
            [] \<Rightarrow> []
          | c # g \<Rightarrow> ''where '' @ strings_Join (map Clause_Build (c # g)) '' and '' @ '' '')
       @ group_text (Kind s) GroupByClause (Clauses s)
       @ group_text (Kind s) OrderByClause (Clauses s))
   \<and> onceClauses (Statement_Build_locals s) FromClause
       = Some (clauses_of_kind FromClause (Clauses s) \<noteq> [])
   \<and> onceClauses (Statement_Build_locals s) WhereClause
       = Some (clauses_of_kind WhereClause (Clauses s) \<noteq> [])
   \<and> Statement_Build (Select cols [From ta, From tb])
       = TrimSpace (''select '' @ Build cols @ '' from ''
           @ strings_Join (map Build ta) '', '' @ '', '' @ strings_Join (map Build tb) '', '' @ '' '')"
proof (intro conjI)
  have f: "group_text (Kind s) FromClause (Clauses s) =
      (case clauses_of_kind FromClause (Clauses s) of
            [] \<Rightarrow> []
          | c # g \<Rightarrow> ''from '' @ strings_Join (map Clause_Build (c # g)) '', '' @ '' '')"
    by (auto simp: group_text_def once_keyword_def assms
        dest!: clauses_of_kind_head Clause_Delimeter_from split: list.splits)
  have w: "group_text (Kind s) WhereClause (Clauses s) =
      (case clauses_of_kind WhereClause (Clauses s) of
            [] \<Rightarrow> []
          | c # g \<Rightarrow> ''where '' @ strings_Join (map Clause_Build (c # g)) '' and '' @ '' '')"
    by (auto simp: group_text_def once_keyword_def assms
        dest!: clauses_of_kind_head Clause_Delimeter_where split: list.splits)
  show "Statement_Build s =
     TrimSpace (head_text s
       @ (case clauses_of_kind FromClause (Clauses s) of
            [] \<Rightarrow> []
          | c # g \<Rightarrow> ''from '' @ strings_Join (map Clause_Build (c # g)) '', '' @ '' '')
       @ group_text (Kind s) JoinClause (Clauses s)
       @ group_text (Kind s) LeftJoinClause (Clauses s)
       @ (case clauses_of_kind WhereClause (Clauses s) of
            [] \<Rightarrow> []
          | c # g \<Rightarrow> ''where '' @ strings_Join (map Clause_Build (c # g)) '' and '' @ '' '')
       @ group_text (Kind s) GroupByClause (Clauses s)
       @ group_text (Kind s) OrderByClause (Clauses s))"
    unfolding f [symmetric] w [symmetric]
    by (simp add: Statement_Build_eq kind_order_def)
  show "onceClauses (Statement_Build_locals s) FromClause
       = Some (clauses_of_kind FromClause (Clauses s) \<noteq> [])"
    by (simp add: onceClauses_Statement_Build_locals Build_init_def assms)
  show "onceClauses (Statement_Build_locals s) WhereClause
       = Some (clauses_of_kind WhereClause (Clauses s) \<noteq> [])"
    by (simp add: onceClauses_Statement_Build_locals Build_init_def assms)
  show "Statement_Build (Select cols [From ta, From tb])
       = TrimSpace (''select '' @ Build cols @ '' from ''
           @ strings_Join (map Build ta) '', '' @ '', '' @ strings_Join (map Build tb) '', '' @ '' '')"
    by (simp add: Statement_Build_eq kind_order_def option_defs head_text_def group_text_def
        clauses_of_kind_def once_keyword_def defaultExpressionDelimeter_def)
qed

theorem from_where_keyword_once_witness:
  "Statement_Build (Select (Ref ''*'') [From [Ref ''a''], Where [Ref ''x''], From [Ref ''b''], Where [Ref ''y'']])
     = ''select * from a, b where (x) and (y)''"
proof -
  let ?s = "Select (Ref ''*'') [From [Ref ''a''], Where [Ref ''x''], From [Ref ''b''], Where [Ref ''y'']]"
  have k: "Kind ?s = SelectStatement"
    by (simp add: option_defs)
  have "TrimSpace (head_text ?s
       @ (case clauses_of_kind FromClause (Clauses ?s) of
            [] \<Rightarrow> []
          | c # g \<Rightarrow> ''from '' @ strings_Join (map Clause_Build (c # g)) '', '' @ '' '')
       @ group_text (Kind ?s) JoinClause (Clauses ?s)
       @ group_text (Kind ?s) LeftJoinClause (Clauses ?s)
       @ (case clauses_of_kind WhereClause (Clauses ?s) of
            [] \<Rightarrow> []
          | c # g \<Rightarrow> ''where '' @ strings_Join (map Clause_Build (c # g)) '' and '' @ '' '')
       @ group_text (Kind ?s) GroupByClause (Clauses ?s)
       @ group_text (Kind ?s) OrderByClause (Clauses ?s))
     = ''select * from a, b where (x) and (y)''"
    by code_simp
  with from_where_keyword_once [OF k, of "Ref ''*''" "[]" "[]"] show ?thesis
    by simp
qed

section \<open>Where\<close>

text \<open>
  Claim C3. \<open>Select(Ref("*"), From(Ref("t")), Where(Equals(Ref("a"), Placeholder())),
  Where(Equals(Ref("b"), Placeholder())))\<close> builds to
  \<open>select * from t where (a = ?) and (b = ?)\<close>: each \<open>Where\<close> call renders as its own
  parenthesized group of predicates joined by \<open>" and "\<close>, and the groups of two calls are
  joined by \<open>" and "\<close> after the one keyword.
\<close>

theorem where_groups_conjoined:
  "Statement_Build
     (Select (Ref ''*'')
        [From [Ref ''t''], Where [Equals (Ref ''a'') Placeholder],
         Where [Equals (Ref ''b'') Placeholder]])
     = ''select * from t where (a = ?) and (b = ?)''
   \<and> Clause_Build (whereClause \<lparr>me_Delimeter = '' and '', me_Expressions = ps\<rparr>)
       = ''('' @ strings_Join (map Build ps) '' and '' @ '')''
   \<and> group_text SelectStatement WhereClause (Clauses (Select cols [From ts, Where ps, Where qs]))
       = ''where ('' @ strings_Join (map Build ps) '' and '' @ '') and (''
           @ strings_Join (map Build qs) '' and '' @ '') ''"
proof (intro conjI)
  show "Statement_Build
     (Select (Ref ''*'')
        [From [Ref ''t''], Where [Equals (Ref ''a'') Placeholder],
         Where [Equals (Ref ''b'') Placeholder]])
     = ''select * from t where (a = ?) and (b = ?)''"
    by code_simp
  show "Clause_Build (whereClause \<lparr>me_Delimeter = '' and '', me_Expressions = ps\<rparr>)
       = ''('' @ strings_Join (map Build ps) '' and '' @ '')''"
    by (simp add: Wrap_def MultiExpression_Expression_def MultiExpression_Build_def
        SimpleListExpression_Build_def)
  show "group_text SelectStatement WhereClause (Clauses (Select cols [From ts, Where ps, Where qs]))
       = ''where ('' @ strings_Join (map Build ps) '' and '' @ '') and (''
           @ strings_Join (map Build qs) '' and '' @ '') ''"
    by (simp add: option_defs group_text_def clauses_of_kind_def once_keyword_def Wrap_def
        MultiExpression_Expression_def MultiExpression_Build_def SimpleListExpression_Build_def)
qed

text \<open>
  Claim C10. A \<open>Where\<close> call without predicates is not dropped: it appends a where
  clause, the clause renders as \<open>()\<close>, and a select statement with this clause alone builds
  to the projection followed by \<open>where ()\<close>.
\<close>

theorem empty_Where_kept:
  "Where [] st
     = st\<lparr>Clauses := Clauses st @
          [whereClause \<lparr>me_Delimeter = '' and '', me_Expressions = []\<rparr>]\<rparr>
   \<and> Clause_Build (whereClause \<lparr>me_Delimeter = '' and '', me_Expressions = []\<rparr>) = ''()''
   \<and> Statement_Build (Select cols [Where []]) = ''select '' @ Build cols @ '' where ()''"
proof (intro conjI)
  show "Where [] st
     = st\<lparr>Clauses := Clauses st @
          [whereClause \<lparr>me_Delimeter = '' and '', me_Expressions = []\<rparr>]\<rparr>"
    by (simp add: Where_def)
  show "Clause_Build (whereClause \<lparr>me_Delimeter = '' and '', me_Expressions = []\<rparr>) = ''()''"
    by (simp add: Wrap_def MultiExpression_Expression_def MultiExpression_Build_def
        SimpleListExpression_Build_def)
  have "builder (Statement_Build_locals (Select cols [Where []]))
      = ''select '' @ Build cols @ '' where () ''"
    by (simp add: builder_Statement_Build_locals kind_order_def option_defs head_text_def
        group_text_def clauses_of_kind_def once_keyword_def Wrap_def
        MultiExpression_Expression_def MultiExpression_Build_def SimpleListExpression_Build_def)
  then show "Statement_Build (Select cols [Where []]) = ''select '' @ Build cols @ '' where ()''"
    unfolding Statement_Build_def by (simp only: TrimSpace_where_empty)
qed

text \<open>
  Claim C8. When the clause list has no where clause, the slot of the where kind stays
  nil, the \<open>Once\<close> of the where keyword never runs, the kind contributes no text, and
  \<open>Build\<close> returns the text of the other kinds.
\<close>

theorem no_where_no_keyword:
  assumes "clauses_of_kind WhereClause (Clauses s) = []"
  shows
  "clauses (Statement_Build_locals s) ! ClauseKind_uint WhereClause = None
   \<and> onceClauses (Statement_Build_locals s) WhereClause \<noteq> Some True
   \<and> group_text (Kind s) WhereClause (Clauses s) = []
   \<and> Statement_Build s =
       TrimSpace (head_text s @
         concat (map (\<lambda>k. group_text (Kind s) k (Clauses s))
           [FromClause, JoinClause, LeftJoinClause, GroupByClause, OrderByClause]))"
proof (intro conjI)
  show "clauses (Statement_Build_locals s) ! ClauseKind_uint WhereClause = None"
    by (simp only: clauses_Statement_Build_locals slots_nth) (simp add: slot_def assms)
  show "onceClauses (Statement_Build_locals s) WhereClause \<noteq> Some True"
    by (cases "Kind s") (simp_all add: onceClauses_Statement_Build_locals Build_init_def assms)
  show w: "group_text (Kind s) WhereClause (Clauses s) = []"
    by (simp add: group_text_def assms)
  show "Statement_Build s =
       TrimSpace (head_text s @
         concat (map (\<lambda>k. group_text (Kind s) k (Clauses s))
           [FromClause, JoinClause, LeftJoinClause, GroupByClause, OrderByClause]))"
    by (simp add: Statement_Build_eq kind_order_def w)
qed

theorem no_where_no_keyword_witness:
  "Statement_Build (Select (Ref ''*'') [OrderBy [''z''], From [Ref ''t'']])
     = ''select * from t order by z''"
proof -
  let ?s = "Select (Ref ''*'') [OrderBy [''z''], From [Ref ''t'']]"
  have h: "clauses_of_kind WhereClause (Clauses ?s) = []"
    by (simp add: option_defs clauses_of_kind_def)
  have "TrimSpace (head_text ?s @
         concat (map (\<lambda>k. group_text (Kind ?s) k (Clauses ?s))
           [FromClause, JoinClause, LeftJoinClause, GroupByClause, OrderByClause]))
       = ''select * from t order by z''"
    by code_simp
  with no_where_no_keyword [OF h] show ?thesis
    by simp
qed

section \<open>Group by\<close>

text \<open>
  Claim C4, as stated, fails: two \<open>GroupBy\<close> calls do not render as two group-by clauses
  with a single space between them. The delimiter of a group-by clause is \<open>", "\<close>.
\<close>

theorem two_GroupBy_counterexample:
  "Statement_Build (Select (Ref ''*'') [GroupBy [''a''], GroupBy [''b'']])
     = ''select * group by a, group by b''
   \<and> Clause_Build (groupByClause [''a'']) @ '' '' @ Clause_Build (groupByClause [''b''])
       = ''group by a group by b''
   \<and> Statement_Build (Select (Ref ''*'') [GroupBy [''a''], GroupBy [''b'']])
       \<noteq> ''select * group by a group by b''"
  by code_simp

text \<open>
  Claim C4, amended. For every statement with two group-by clauses, the group of the kind
  is the rendering of the first clause, the delimiter \<open>", "\<close>, the rendering of the second
  clause: each rendering starts with the keyword \<open>group by\<close>, so the keyword occurs once
  per \<open>GroupBy\<close> call, and the two rendered clauses are joined by a comma and a space.
\<close>

theorem two_GroupBy_comma:
  assumes "clauses_of_kind GroupByClause (Clauses s) = [groupByClause a, groupByClause b]"
  shows
  "group_text (Kind s) GroupByClause (Clauses s)
     = Clause_Build (groupByClause a) @ '', '' @ Clause_Build (groupByClause b) @ '' ''
   \<and> Clause_Build (groupByClause a) = ''group by '' @ strings_Join a '', ''
   \<and> Clause_Build (groupByClause b) = ''group by '' @ strings_Join b '', ''
   \<and> Statement_Build s =
       TrimSpace (head_text s
         @ group_text (Kind s) FromClause (Clauses s)
         @ group_text (Kind s) JoinClause (Clauses s)
         @ group_text (Kind s) LeftJoinClause (Clauses s)
         @ group_text (Kind s) WhereClause (Clauses s)
         @ ''group by '' @ strings_Join a '', '' @ '', group by '' @ strings_Join b '', '' @ '' ''
         @ group_text (Kind s) OrderByClause (Clauses s))"
proof -
  have g: "group_text (Kind s) GroupByClause (Clauses s)
     = Clause_Build (groupByClause a) @ '', '' @ Clause_Build (groupByClause b) @ '' ''"
    by (simp add: group_text_def assms once_keyword_def)
  have b: "Clause_Build (groupByClause x) = ''group by '' @ strings_Join x '', ''" for x
    by (simp add: defaultExpressionDelimeter_def)
  have "Statement_Build s =
       TrimSpace (head_text s
         @ group_text (Kind s) FromClause (Clauses s)
         @ group_text (Kind s) JoinClause (Clauses s)
         @ group_text (Kind s) LeftJoinClause (Clauses s)
         @ group_text (Kind s) WhereClause (Clauses s)
         @ group_text (Kind s) GroupByClause (Clauses s)
         @ group_text (Kind s) OrderByClause (Clauses s))"
    by (simp add: Statement_Build_eq kind_order_def)
  then have "Statement_Build s =
       TrimSpace (head_text s
         @ group_text (Kind s) FromClause (Clauses s)
         @ group_text (Kind s) JoinClause (Clauses s)
         @ group_text (Kind s) LeftJoinClause (Clauses s)
         @ group_text (Kind s) WhereClause (Clauses s)
         @ ''group by '' @ strings_Join a '', '' @ '', group by '' @ strings_Join b '', '' @ '' ''
         @ group_text (Kind s) OrderByClause (Clauses s))"
    unfolding g b by simp
  with g b show ?thesis by blast
qed

theorem two_GroupBy_comma_witness:
  "Statement_Build
     (Select (Ref ''n'') [GroupBy [''a'', ''b''], From [Ref ''t''], GroupBy [''c'']])
     = ''select n from t group by a, b, group by c''"
proof -
  let ?s = "Select (Ref ''n'') [GroupBy [''a'', ''b''], From [Ref ''t''], GroupBy [''c'']]"
  have h: "clauses_of_kind GroupByClause (Clauses ?s)
      = [groupByClause [''a'', ''b''], groupByClause [''c'']]"
    by (simp add: option_defs clauses_of_kind_def)
  from two_GroupBy_comma [OF h] have "Statement_Build ?s =
       TrimSpace (head_text ?s
         @ group_text (Kind ?s) FromClause (Clauses ?s)
         @ group_text (Kind ?s) JoinClause (Clauses ?s)
         @ group_text (Kind ?s) LeftJoinClause (Clauses ?s)
         @ group_text (Kind ?s) WhereClause (Clauses ?s)
         @ ''group by '' @ strings_Join [''a'', ''b''] '', '' @ '', group by '' @ strings_Join [''c''] '', '' @ '' ''
         @ group_text (Kind ?s) OrderByClause (Clauses ?s))"
    by blast
  also have "\<dots> = ''select n from t group by a, b, group by c''"
    by code_simp
  finally show ?thesis .
qed

section \<open>Clauses of one kind\<close>

text \<open>
  Claim C9. When a statement has two or more clauses of one kind, these clauses are in the
  slot of the kind in the order in which they were appended (they are a subsequence of the
  clause list), all of them have the delimiter of the first, and the group renders them in
  this order joined by this delimiter.
\<close>

theorem same_kind_in_append_order:
  assumes "clauses_of_kind k (Clauses s) = c # c' # g"
  shows
  "subseq (c # c' # g) (Clauses s)
   \<and> (\<forall>x \<in> set (c # c' # g). Clause_Kind x = k \<and> Clause_Delimeter x = Clause_Delimeter c)
   \<and> clauses (Statement_Build_locals s) ! ClauseKind_uint k
       = Some \<lparr>kind = k,
               me = \<lparr>me_Delimeter = Clause_Delimeter c,
                     me_Expressions = map Clause_Expression (c # c' # g)\<rparr>\<rparr>
   \<and> group_text (Kind s) k (Clauses s)
       = once_keyword (Kind s) k
           @ Clause_Build c @ Clause_Delimeter c @ strings_Join (map Clause_Build (c' # g)) (Clause_Delimeter c)
           @ '' ''
   \<and> Statement_Build s =
       TrimSpace (head_text s @
         concat (map (\<lambda>k. group_text (Kind s) k (Clauses s))
           [FromClause, JoinClause, LeftJoinClause, WhereClause, GroupByClause, OrderByClause]))"
proof (intro conjI)
  show "subseq (c # c' # g) (Clauses s)"
    using subseq_filter_left [of "\<lambda>c. Clause_Kind c = k" "Clauses s"]
    by (simp add: assms [unfolded clauses_of_kind_def])
  have kinds: "Clause_Kind x = k" if "x \<in> set (c # c' # g)" for x
    using that clauses_of_kind_member [of x k "Clauses s"] by (simp add: assms)
  then show "\<forall>x \<in> set (c # c' # g). Clause_Kind x = k \<and> Clause_Delimeter x = Clause_Delimeter c"
    using Clause_Delimeter_by_kind by (metis list.set_intros(1))
  show "clauses (Statement_Build_locals s) ! ClauseKind_uint k
       = Some \<lparr>kind = k,
               me = \<lparr>me_Delimeter = Clause_Delimeter c,
                     me_Expressions = map Clause_Expression (c # c' # g)\<rparr>\<rparr>"
    by (simp only: clauses_Statement_Build_locals slots_nth) (simp add: slot_def assms)
  show "group_text (Kind s) k (Clauses s)
       = once_keyword (Kind s) k
           @ Clause_Build c @ Clause_Delimeter c @ strings_Join (map Clause_Build (c' # g)) (Clause_Delimeter c)
           @ '' ''"
    by (simp add: group_text_def assms)
  show "Statement_Build s =
       TrimSpace (head_text s @
         concat (map (\<lambda>k. group_text (Kind s) k (Clauses s))
           [FromClause, JoinClause, LeftJoinClause, WhereClause, GroupByClause, OrderByClause]))"
    using Statement_Build_eq [of s] by (simp only: kind_order_def)
qed

theorem same_kind_in_append_order_witness:
  "Statement_Build
     (Select (Ref ''*'')
        [Join (Ref ''b'') [Ref ''p''], From [Ref ''t''], Join (Ref ''a'') [Ref ''q'']])
     = ''select * from t join b on p join a on q''"
proof -
  let ?s = "Select (Ref ''*'')
        [Join (Ref ''b'') [Ref ''p''], From [Ref ''t''], Join (Ref ''a'') [Ref ''q'']]"
  have h: "clauses_of_kind JoinClause (Clauses ?s)
      = joinClause (Ref ''b'') [Ref ''p''] # joinClause (Ref ''a'') [Ref ''q''] # []"
    by (simp add: option_defs clauses_of_kind_def)
  have "TrimSpace (head_text ?s @
         concat (map (\<lambda>k. group_text (Kind ?s) k (Clauses ?s))
           [FromClause, JoinClause, LeftJoinClause, WhereClause, GroupByClause, OrderByClause]))
       = ''select * from t join b on p join a on q''"
    by code_simp
  with same_kind_in_append_order [OF h] show ?thesis
    by simp
qed

section \<open>Building twice\<close>

text \<open>
  Claim C5, as stated, fails: a statement can hold an expression with state. The statement
  \<open>Select\<close> of the closure that counts its calls builds to \<open>select a\<close>, then to
  \<open>select b\<close>.
\<close>

theorem Build_twice_counterexample:
  "Build_twice counting_statement 0 = (''select a'', ''select b'')
   \<and> fst (Build_twice counting_statement 0) \<noteq> snd (Build_twice counting_statement 0)"
  by code_simp

text \<open>
  Claim C5, amended. For every statement whose expressions and clauses are read-only
  (their \<open>Build\<close> leaves the state outside the statement as it found it), two calls of
  \<open>Build\<close> in a row return the same string, and a call returns the statement and the state
  as they were before it: \<open>Build\<close> itself keeps nothing between calls. Every statement
  made of the package's own expressions and clauses is such a statement: with state it
  builds to the string \<open>Statement_Build\<close> gives, twice.
\<close>

theorem Build_twice_read_only:
  assumes "\<forall>e \<in> set (ss_Expressions s). read_only e"
    and "\<forall>c \<in> set (ss_Clauses s). read_only (sc_Build c)"
  shows
  "fst (Build_twice s w) = snd (Build_twice s w)
   \<and> Stateful_Build s w = (fst (Stateful_Build s w), s, w)
   \<and> Stateful_Build (Statement_stateful p) w = (Statement_Build p, Statement_stateful p, w)
   \<and> Build_twice (Statement_stateful p) w = (Statement_Build p, Statement_Build p)"
proof (intro conjI)
  have keep: "st_world (Stateful_Build_locals s w) = w \<and> st_recv (Stateful_Build_locals s w) = s"
    using assms by (rule Stateful_Build_locals_read_only)
  then show once: "Stateful_Build s w = (fst (Stateful_Build s w), s, w)"
    by (simp add: Stateful_Build_def Let_def)
  obtain out where "Stateful_Build s w = (out, s, w)"
    using once by blast
  then have "Build_twice s w = (out, out)"
    by (simp add: Build_twice_def)
  then show "fst (Build_twice s w) = snd (Build_twice s w)"
    by simp
  show pure: "Stateful_Build (Statement_stateful p) w =
      (Statement_Build p, Statement_stateful p, w)"
    by (simp add: Stateful_Build_def Let_def Stateful_Build_locals_of Stateful_locals_of_def
        Statement_Build_def recv_Statement_Build_locals)
  show "Build_twice (Statement_stateful p) w = (Statement_Build p, Statement_Build p)"
    by (simp add: Build_twice_def pure)
qed

theorem Build_twice_read_only_witness:
  "Build_twice reading_statement 0 = (''select a from t'', ''select a from t'')"
proof -
  have e: "\<forall>e \<in> set (ss_Expressions reading_statement). read_only e"
    by (simp add: reading_statement_def read_only_def reading_def)
  have c: "\<forall>c \<in> set (ss_Clauses reading_statement). read_only (sc_Build c)"
    by (simp add: reading_statement_def read_only_def Clause_stateful_def stateless_def)
  have "fst (Build_twice reading_statement 0) = ''select a from t''"
    by code_simp
  with Build_twice_read_only [OF e c, of 0] show ?thesis
    by (simp add: prod_eq_iff)
qed

section \<open>Expressions\<close>

text \<open>
  Claim C6. \<open>IsNull(e)\<close> renders as the text of \<open>e\<close> followed by \<open>" is null"\<close>,
  \<open>IsNotNull(e)\<close> as the text of \<open>e\<close> followed by \<open>" is not null"\<close>: a predicate whose
  right operand is nil ends with its operator, with nothing after it.
\<close>

theorem unary_predicates:
  "Build (IsNull e) = Build e @ '' is null''
   \<and> Build (IsNotNull e) = Build e @ '' is not null''
   \<and> Build (Predicate op e None) = Build e @ '' '' @ op"
  by (simp add: IsNull_def IsNotNull_def Predicate_def)

text \<open>
  Claim C7. \<open>FromSubselect\<close> appends a from clause whose table is the statement in
  parentheses, aliased with a quoted literal when the alias is not empty. For
  \<open>FromSubselect(Select(Columns(Ref("id")), From(Ref("t"))), "s")\<close> the table renders as
  \<open>(select id from t) as 's'\<close> and \<open>Select(Ref("*"), ...)\<close> builds to
  \<open>select * from (select id from t) as 's'\<close>.
\<close>

theorem subselect_as_table:
  "FromSubselect sub [] = From [Wrap (Statement_Expression sub)]
   \<and> FromSubselect sub (a # as) = From [As (Wrap (Statement_Expression sub)) (a # as)]
   \<and> FromSubselect (Select (Columns [Ref ''id'']) [From [Ref ''t'']]) ''s'' st
     = st\<lparr>Clauses := Clauses st @
          [fromClause
             [As (Wrap (Statement_Expression (Select (Columns [Ref ''id'']) [From [Ref ''t'']])))
                 ''s'']]\<rparr>
   \<and> Build (As (Wrap (Statement_Expression (Select (Columns [Ref ''id'']) [From [Ref ''t'']])))
              ''s'')
       = ''(select id from t) as '' @ [CHR 0x27] @ ''s'' @ [CHR 0x27]
   \<and> Statement_Build
       (Select (Ref ''*'') [FromSubselect (Select (Columns [Ref ''id'']) [From [Ref ''t'']]) ''s''])
       = ''select * from (select id from t) as '' @ [CHR 0x27] @ ''s'' @ [CHR 0x27]"
proof (intro conjI)
  show "FromSubselect sub [] = From [Wrap (Statement_Expression sub)]"
    by (simp add: FromSubselect_def)
  show "FromSubselect sub (a # as) = From [As (Wrap (Statement_Expression sub)) (a # as)]"
    by (simp add: FromSubselect_def)
  show "FromSubselect (Select (Columns [Ref ''id'']) [From [Ref ''t'']]) ''s'' st
     = st\<lparr>Clauses := Clauses st @
          [fromClause
             [As (Wrap (Statement_Expression (Select (Columns [Ref ''id'']) [From [Ref ''t'']])))
                 ''s'']]\<rparr>"
    by (simp add: FromSubselect_def From_def)
  show "Build (As (Wrap (Statement_Expression (Select (Columns [Ref ''id'']) [From [Ref ''t'']])))
              ''s'')
       = ''(select id from t) as '' @ [CHR 0x27] @ ''s'' @ [CHR 0x27]"
    by code_simp
  show "Statement_Build
       (Select (Ref ''*'') [FromSubselect (Select (Columns [Ref ''id'']) [From [Ref ''t'']]) ''s''])
       = ''select * from (select id from t) as '' @ [CHR 0x27] @ ''s'' @ [CHR 0x27]"
    by code_simp
qed

end
